theory Spec2Isabelle
  imports Complex_Main
begin

section \<open>The scoring service of the ONNX notebook\<close>

text \<open>
  The notebook \<^verbatim>\<open>solution-onnx-AML.ipynb\<close> writes the file \<^verbatim>\<open>scoring_service.py\<close>
  (cell 27), whose two functions \<^verbatim>\<open>init\<close> and \<^verbatim>\<open>run\<close> are the web service:
  \<^verbatim>\<open>
  def init():
      global model
      try:
          model_path = Model.get_model_path('component_compliance')
          model_file_path = os.path.join(model_path,'component_compliance.onnx')
          print('Loading model from: ', model_file_path)
          model = onnxruntime.InferenceSession(model_file_path)
          print('Model loaded...')
      except Exception as e:
          print(e)

  def run(raw_data):
      try:
          print("Received input: ", raw_data)
          input_data = np.array(json.loads(raw_data)).astype(np.float32)
          result = model.run(None, {model.get_inputs()[0].name:input_data})[0]
          result = result[0][0].item()
          return result
      except Exception as e:
          error = str(e)
          return error
  \<close>
  The functions are embedded as they are written. What they call in libraries
  (\<^verbatim>\<open>azureml\<close>, \<^verbatim>\<open>onnxruntime\<close>, \<^verbatim>\<open>json\<close>, \<^verbatim>\<open>numpy\<close>) is not code of the notebook: each such
  call is a field of the record \<open>env\<close>, a function that returns a value or raises, and the
  theorems about \<open>init\<close> and \<open>run\<close> hold for every such environment.
\<close>

subsection \<open>Python values, exceptions\<close>

text \<open>
  An exception raised by a library call or by the interpreter: its class and the text
  \<^verbatim>\<open>str(e)\<close>. Every exception here is an instance of \<^verbatim>\<open>Exception\<close>, which is what the
  two \<^verbatim>\<open>except Exception\<close> clauses catch.
\<close>

datatype exn = Exn (exn_class: string) (str: string)

text \<open>
  A floating-point number: a finite value, idealised as a real (rounding to the 24-bit
  significand of \<^verbatim>\<open>float32\<close> is not modelled), an infinity or a NaN.
\<close>

datatype pyfloat = Fin real | PosInf | NegInf | NaN

text \<open>What \<^verbatim>\<open>run\<close> can return: a Python \<^verbatim>\<open>float\<close> or a \<^verbatim>\<open>str\<close>.\<close>

datatype pyval = PyFloat pyfloat | PyStr string

text \<open>What \<^verbatim>\<open>json.loads\<close> returns; a string is its list of code points.\<close>

datatype json =
    JNull
  | JBool bool
  | JInt int
  | JFloat pyfloat
  | JStr "nat list"
  | JArr "json list"
  | JObj "(nat list \<times> json) list"

text \<open>
  A numpy array of dtype \<^verbatim>\<open>float32\<close>: its shape and its elements in row-major order.
  It is well formed when it has as many elements as the shape says.
\<close>

datatype ndarray = NDArray (shape: "nat list") (flat: "pyfloat list")

definition wf_ndarray :: "ndarray \<Rightarrow> bool" where
  "wf_ndarray a \<longleftrightarrow> length (flat a) = prod_list (shape a)"

text \<open>
  What indexing a numpy array gives: a sub-array, or a numpy scalar when the array had
  one axis.
\<close>

datatype npvalue = NpScalar pyfloat | NpArray ndarray

text \<open>
  \<^verbatim>\<open>a[0]\<close>. Row 0 of an array of shape \<open>d # ds\<close> is its first \<open>prod_list ds\<close> elements;
  an axis of size 0, a 0-dimensional array and a numpy scalar raise \<^verbatim>\<open>IndexError\<close>.
  (An array with no element where its shape promises one is not well formed; numpy
  builds none, and the equation reports the missing element the same way.)
\<close>

fun getitem0 :: "npvalue \<Rightarrow> exn + npvalue" where
  "getitem0 (NpScalar x) = Inl (Exn ''IndexError'' ''invalid index to scalar variable.'')"
| "getitem0 (NpArray (NDArray [] xs)) =
     Inl (Exn ''IndexError'' ''too many indices for array'')"
| "getitem0 (NpArray (NDArray (d # ds) xs)) =
     (if d = 0 then
        Inl (Exn ''IndexError'' ''index 0 is out of bounds for axis 0 with size 0'')
      else (case ds of
              [] \<Rightarrow> (case xs of
                       [] \<Rightarrow> Inl (Exn ''IndexError''
                                  ''index 0 is out of bounds for axis 0 with size 0'')
                     | x # _ \<Rightarrow> Inr (NpScalar x))
            | _ # _ \<Rightarrow> Inr (NpArray (NDArray ds (take (prod_list ds) xs)))))"

text \<open>
  \<^verbatim>\<open>a.item()\<close>: the Python scalar of a numpy scalar, or of an array of exactly one
  element; \<^verbatim>\<open>ValueError\<close> on any other array.
\<close>

fun item :: "npvalue \<Rightarrow> exn + pyfloat" where
  "item (NpScalar x) = Inr x"
| "item (NpArray (NDArray ds xs)) =
     (case xs of
        [x] \<Rightarrow> Inr x
      | _ \<Rightarrow> Inl (Exn ''ValueError''
                    ''can only convert an array of size 1 to a Python scalar''))"

text \<open>\<^verbatim>\<open>xs[0]\<close> on a Python list.\<close>

fun list_getitem0 :: "'a list \<Rightarrow> exn + 'a" where
  "list_getitem0 [] = Inl (Exn ''IndexError'' ''list index out of range'')"
| "list_getitem0 (x # _) = Inr x"

text \<open>Sequencing of statements that may raise: the first exception ends the block.\<close>

definition and_then :: "exn + 'a \<Rightarrow> ('a \<Rightarrow> exn + 'b) \<Rightarrow> exn + 'b" where
  "and_then m f = (case m of Inl e \<Rightarrow> Inl e | Inr x \<Rightarrow> f x)"

subsection \<open>The loaded model and the libraries\<close>

text \<open>
  An \<^verbatim>\<open>onnxruntime.InferenceSession\<close>, as far as \<^verbatim>\<open>run\<close> uses it: the names of the graph's
  inputs (\<^verbatim>\<open>get_inputs()[i].name\<close>) and the method \<^verbatim>\<open>run(None, feed)\<close>, which maps a
  dictionary from input names to arrays to the list of all output arrays, or raises.
\<close>

record session =
  get_inputs :: "string list"
  session_run :: "(string \<times> ndarray) list \<Rightarrow> exn + ndarray list"

text \<open>
  The library calls of the scoring script. \<open>np_array_astype_float32\<close> is
  \<^verbatim>\<open>np.array(x).astype(np.float32)\<close>, two calls on one value.
\<close>

record env =
  get_model_path :: "string \<Rightarrow> exn + string"
  InferenceSession :: "string \<Rightarrow> exn + session"
  json_loads :: "string \<Rightarrow> exn + json"
  np_array_astype_float32 :: "json \<Rightarrow> exn + ndarray"

text \<open>
  The state of the serving process: the global variable \<^verbatim>\<open>model\<close> (unbound until
  \<^verbatim>\<open>init\<close> assigns it) and the lines printed so far.
\<close>

record state =
  model :: "session option"
  stdout :: "string list"

definition start :: state where
  "start = \<lparr>model = None, stdout = []\<rparr>"

text \<open>\<^verbatim>\<open>print(a, b)\<close> writes \<open>a\<close>, a space, \<open>b\<close>; \<^verbatim>\<open>print(a)\<close> writes \<open>a\<close>.\<close>

definition print1 :: "string \<Rightarrow> state \<Rightarrow> state" where
  "print1 a s = s\<lparr>stdout := stdout s @ [a]\<rparr>"

definition print2 :: "string \<Rightarrow> string \<Rightarrow> state \<Rightarrow> state" where
  "print2 a b s = s\<lparr>stdout := stdout s @ [a @ '' '' @ b]\<rparr>"

text \<open>\<^verbatim>\<open>os.path.join(a, b)\<close> on a POSIX host.\<close>

definition os_path_join :: "string \<Rightarrow> string \<Rightarrow> string" where
  "os_path_join a b =
     (if b \<noteq> [] \<and> hd b = CHR ''/'' then b
      else if a = [] \<or> last a = CHR ''/'' then a @ b
      else a @ ''/'' @ b)"

subsection \<open>init\<close>

text \<open>The \<^verbatim>\<open>try\<close> block of \<^verbatim>\<open>init\<close>: the exception that ends it, if any, and the state.\<close>

definition init_try :: "env \<Rightarrow> state \<Rightarrow> exn option \<times> state" where
  "init_try E s =
     (case get_model_path E ''component_compliance'' of
        Inl e \<Rightarrow> (Some e, s)
      | Inr model_path \<Rightarrow>
          (let model_file_path = os_path_join model_path ''component_compliance.onnx'';
               s1 = print2 ''Loading model from: '' model_file_path s
           in case InferenceSession E model_file_path of
                Inl e \<Rightarrow> (Some e, s1)
              | Inr m \<Rightarrow> (None, print1 ''Model loaded...'' (s1\<lparr>model := Some m\<rparr>))))"

text \<open>\<^verbatim>\<open>init\<close>: the block, and \<^verbatim>\<open>print(e)\<close> for an exception. It returns \<^verbatim>\<open>None\<close>.\<close>

definition init :: "env \<Rightarrow> state \<Rightarrow> state" where
  "init E s =
     (case init_try E s of
        (Some e, s') \<Rightarrow> print1 (str e) s'
      | (None, s') \<Rightarrow> s')"

subsection \<open>run\<close>

text \<open>
  The \<^verbatim>\<open>try\<close> block of \<^verbatim>\<open>run\<close> after the \<^verbatim>\<open>print\<close>, statement by statement. Reading the
  unbound global \<^verbatim>\<open>model\<close> raises \<^verbatim>\<open>NameError\<close>; it is read after \<^verbatim>\<open>input_data\<close> has
  been computed.
\<close>

definition use_model :: "session option \<Rightarrow> exn + session" where
  "use_model g =
     (case g of
        None \<Rightarrow> Inl (Exn ''NameError'' ''name 'model' is not defined'')
      | Some m \<Rightarrow> Inr m)"

definition input_data_of :: "env \<Rightarrow> string \<Rightarrow> exn + ndarray" where
  "input_data_of E raw_data = and_then (json_loads E raw_data) (np_array_astype_float32 E)"

definition first_cell :: "ndarray \<Rightarrow> exn + pyfloat" where
  "first_cell result =
     and_then (getitem0 (NpArray result)) (\<lambda>row.
     and_then (getitem0 row) (\<lambda>cell.
     item cell))"

definition run_try :: "env \<Rightarrow> session option \<Rightarrow> string \<Rightarrow> exn + pyfloat" where
  "run_try E g raw_data =
     and_then (input_data_of E raw_data) (\<lambda>input_data.
     and_then (use_model g) (\<lambda>m.
     and_then (list_getitem0 (get_inputs m)) (\<lambda>name.
     and_then (session_run m [(name, input_data)]) (\<lambda>outputs.
     and_then (list_getitem0 outputs) (\<lambda>result.
     first_cell result)))))"

text \<open>
  \<^verbatim>\<open>run\<close>: what the call does, a value returned (\<open>Inr\<close>) or an exception that leaves
  the function (\<open>Inl\<close>), and the state after it. The handler returns \<^verbatim>\<open>str(e)\<close>.
\<close>

definition run :: "env \<Rightarrow> state \<Rightarrow> string \<Rightarrow> (exn + pyval) \<times> state" where
  "run E s raw_data =
     (let s1 = print2 ''Received input: '' raw_data s
      in case run_try E (model s1) raw_data of
           Inl e \<Rightarrow> (Inr (PyStr (str e)), s1)
         | Inr result \<Rightarrow> (Inr (PyFloat result), s1))"

subsection \<open>The model that is deployed\<close>

text \<open>
  Cell 11 builds the network and loads its weights from \<^verbatim>\<open>model.h5\<close>, cell 13 converts
  it to ONNX, cell 25 registers the file and \<^verbatim>\<open>init\<close> loads it:
  \<^verbatim>\<open>
  embedding_dim = 100
  maxlen = 100
  max_words = 10000
  model = Sequential()
  model.add(Embedding(max_words, embedding_dim, input_length=maxlen))
  model.add(Flatten())
  model.add(Dense(32, activation='relu'))
  model.add(Dense(1, activation='sigmoid'))
  \<close>
  The weights file is downloaded, so the weights are a parameter.
\<close>

definition embedding_dim :: nat where
  "embedding_dim = 100"

definition maxlen :: nat where
  "maxlen = 100"

definition max_words :: nat where
  "max_words = 10000"

record weights =
  embeddings :: "nat \<Rightarrow> nat \<Rightarrow> real"
  dense_1_kernel :: "nat \<Rightarrow> nat \<Rightarrow> real"
  dense_1_bias :: "nat \<Rightarrow> real"
  dense_2_kernel :: "nat \<Rightarrow> real"
  dense_2_bias :: real

definition relu :: "real \<Rightarrow> real" where
  "relu x = max 0 x"

definition sigmoid :: "real \<Rightarrow> real" where
  "sigmoid x = 1 / (1 + exp (- x))"

definition dot :: "real list \<Rightarrow> (nat \<Rightarrow> real) \<Rightarrow> real" where
  "dot xs k = sum_list (map (\<lambda>(x, m). x * k m) (zip xs [0..<length xs]))"

definition Embedding :: "weights \<Rightarrow> nat list \<Rightarrow> real list list" where
  "Embedding W idx = map (\<lambda>i. map (embeddings W i) [0..<embedding_dim]) idx"

definition Flatten :: "real list list \<Rightarrow> real list" where
  "Flatten rows = concat rows"

definition Dense_relu :: "weights \<Rightarrow> real list \<Rightarrow> real list" where
  "Dense_relu W xs =
     map (\<lambda>u. relu (dot xs (\<lambda>m. dense_1_kernel W m u) + dense_1_bias W u)) [0..<32]"

definition Dense_sigmoid :: "weights \<Rightarrow> real list \<Rightarrow> real" where
  "Dense_sigmoid W hs = sigmoid (dot hs (dense_2_kernel W) + dense_2_bias W)"

definition predict :: "weights \<Rightarrow> nat list \<Rightarrow> real" where
  "predict W idx = Dense_sigmoid W (Dense_relu W (Flatten (Embedding W idx)))"

text \<open>
  The graph takes floats and casts them to integers (towards zero) to look the rows of
  the embedding matrix up; an index outside \<open>0..<max_words\<close>, an infinity or a NaN has
  no row. (The notebook converts for opset 7, whose lookup has no negative indices; a
  runtime that follows a later opset reads \<open>-max_words..-1\<close> from the end of the matrix.
  The statements below keep to values that are not negative.)
\<close>

definition token_index :: "pyfloat \<Rightarrow> nat option" where
  "token_index x =
     (case x of
        Fin r \<Rightarrow>
          (let i = (if 0 \<le> r then \<lfloor>r\<rfloor> else \<lceil>r\<rceil>)
           in if 0 \<le> i \<and> i < int max_words then Some (nat i) else None)
      | _ \<Rightarrow> None)"

text \<open>
  The session of the converted model: one input of shape \<open>(N, maxlen)\<close>, one output
  of shape \<open>(N, 1)\<close> with the prediction of each row. The runtime refuses an input of
  another rank or row length and an index without a row. Its messages name the node and
  the offending value; the three texts below stand for them.
\<close>

definition invalid_rank :: exn where
  "invalid_rank = Exn ''InvalidArgument'' ''Invalid rank for input''"

definition invalid_dimensions :: exn where
  "invalid_dimensions = Exn ''InvalidArgument'' ''Got invalid dimensions for input''"

definition out_of_bounds :: exn where
  "out_of_bounds = Exn ''InvalidArgument'' ''indices element out of data bounds''"

definition keras_run :: "weights \<Rightarrow> ndarray \<Rightarrow> exn + ndarray list" where
  "keras_run W a =
     (case shape a of
        [n, l] \<Rightarrow>
          if l \<noteq> maxlen then Inl invalid_dimensions
          else
            (case those (map token_index (flat a)) of
               None \<Rightarrow> Inl out_of_bounds
             | Some idx \<Rightarrow>
                 Inr [NDArray [n, 1]
                        (map (\<lambda>r. Fin (predict W (take maxlen (drop (r * maxlen) idx))))
                           [0..<n])])
      | _ \<Rightarrow> Inl invalid_rank)"

definition keras_session :: "string \<Rightarrow> weights \<Rightarrow> session" where
  "keras_session input_name W =
     \<lparr>get_inputs = [input_name],
      session_run = (\<lambda>feed.
        case map_of feed input_name of
          None \<Rightarrow> Inl (Exn ''InvalidArgument'' ''Missing Input'')
        | Some a \<Rightarrow> keras_run W a)\<rparr>"

subsection \<open>A reference model of the libraries\<close>

text \<open>
  The theorems hold for every behaviour of the libraries. To evaluate \<open>run\<close> on concrete
  requests, one environment is defined here. \<open>py_json_loads\<close> follows \<^verbatim>\<open>json.loads\<close> of
  CPython (the scanner of \<^verbatim>\<open>json/scanner.py\<close> and \<^verbatim>\<open>json/decoder.py\<close>) with its error
  texts. The recursion is on a fuel that is twice the length of the text; Python raises
  \<^verbatim>\<open>RecursionError\<close> on deeply nested text, the model when the fuel is used up.
\<close>

definition is_ws :: "char \<Rightarrow> bool" where
  "is_ws c \<longleftrightarrow> c = CHR '' '' \<or> c = CHR 0x09 \<or> c = CHR 0x0A \<or> c = CHR 0x0D"

definition is_digit :: "char \<Rightarrow> bool" where
  "is_digit c \<longleftrightarrow> c \<in> set ''0123456789''"

definition skip_ws :: "string \<Rightarrow> nat \<Rightarrow> string \<times> nat" where
  "skip_ws s i = (dropWhile is_ws s, i + length (takeWhile is_ws s))"

definition digits_value :: "string \<Rightarrow> int" where
  "digits_value ds = foldl (\<lambda>a c. 10 * a + (of_char c - 48)) 0 ds"

definition match_exponent :: "string \<Rightarrow> (int \<times> nat) option" where
  "match_exponent s =
     (case s of
        [] \<Rightarrow> None
      | c # r \<Rightarrow>
          if c = CHR ''e'' \<or> c = CHR ''E'' then
            (let signed = (r \<noteq> [] \<and> (hd r = CHR ''+'' \<or> hd r = CHR ''-''));
                 ds = takeWhile is_digit (if signed then tl r else r)
             in if ds = [] then None
                else Some (if signed \<and> hd r = CHR ''-'' then - digits_value ds
                           else digits_value ds,
                           length ds + (if signed then 2 else 1)))
          else None)"

definition match_number :: "string \<Rightarrow> (json \<times> nat) option" where
  "match_number s =
     (let neg = (s \<noteq> [] \<and> hd s = CHR ''-'');
          s1 = (if neg then tl s else s);
          ip = (case s1 of
                  [] \<Rightarrow> []
                | c # _ \<Rightarrow> if c = CHR ''0'' then [c] else takeWhile is_digit s1)
      in if ip = [] then None
         else
           (let s2 = drop (length ip) s1;
                fp = (case s2 of
                        [] \<Rightarrow> []
                      | c # r \<Rightarrow> if c = CHR ''.'' then takeWhile is_digit r else []);
                s3 = (if fp = [] then s2 else drop (length fp + 1) s2);
                n1 = (if neg then 1 else 0) + length ip + (if fp = [] then 0 else length fp + 1);
                sgn = (if neg then - 1 else 1)
            in case match_exponent s3 of
                 None \<Rightarrow>
                   if fp = [] then Some (JInt (sgn * digits_value ip), n1)
                   else Some (JFloat (Fin (real_of_int (sgn * digits_value (ip @ fp))
                                           / 10 ^ length fp)), n1)
               | Some (e, n2) \<Rightarrow>
                   Some (JFloat (Fin (real_of_int (sgn * digits_value (ip @ fp))
                                      / 10 ^ length fp
                                      * (if 0 \<le> e then 10 ^ nat e else 1 / 10 ^ nat (- e)))),
                         n1 + n2)))"

datatype 'a scan =
    Scanned 'a string nat
  | StopIteration nat
  | JSONDecodeError string nat
  | RecursionError

definition hex_digit :: "char \<Rightarrow> nat option" where
  "hex_digit c =
     (let n = (of_char c :: nat)
      in if 48 \<le> n \<and> n \<le> 57 then Some (n - 48)
         else if 65 \<le> n \<and> n \<le> 70 then Some (n - 55)
         else if 97 \<le> n \<and> n \<le> 102 then Some (n - 87)
         else None)"

definition decode_uXXXX :: "string \<Rightarrow> nat option" where
  "decode_uXXXX s =
     (case map hex_digit (take 4 s) of
        [Some a, Some b, Some c, Some d] \<Rightarrow> Some (((a * 16 + b) * 16 + c) * 16 + d)
      | _ \<Rightarrow> None)"

definition backslash :: "char \<Rightarrow> nat option" where
  "backslash esc =
     (if esc = CHR 0x22 then Some 0x22
      else if esc = CHR 0x5C then Some 0x5C
      else if esc = CHR ''/'' then Some 0x2F
      else if esc = CHR ''b'' then Some 0x08
      else if esc = CHR ''f'' then Some 0x0C
      else if esc = CHR ''n'' then Some 0x0A
      else if esc = CHR ''r'' then Some 0x0D
      else if esc = CHR ''t'' then Some 0x09
      else None)"

fun scanstring :: "string \<Rightarrow> nat \<Rightarrow> nat \<Rightarrow> nat list \<Rightarrow> (nat list) scan" where
  "scanstring [] i begin acc = JSONDecodeError ''Unterminated string starting at'' begin"
| "scanstring (c # cs) i begin acc =
     (if c = CHR 0x22 then Scanned (rev acc) cs (i + 1)
      else if c = CHR 0x5C then
        (case cs of
           [] \<Rightarrow> JSONDecodeError ''Unterminated string starting at'' begin
         | esc # r \<Rightarrow>
             if esc = CHR ''u'' then
               (if length r < 5 then
                  JSONDecodeError (''Invalid '' @ [CHR 0x5C] @ ''uXXXX escape'') (i + 1)
                else
                  (case decode_uXXXX r of
                     None \<Rightarrow>
                       JSONDecodeError (''Invalid '' @ [CHR 0x5C] @ ''uXXXX escape'') (i + 1)
                   | Some uni \<Rightarrow>
                       (let r4 = drop 4 r;
                            uni2 = (if 0xD800 \<le> uni \<and> uni \<le> 0xDBFF
                                       \<and> take 2 r4 = [CHR 0x5C, CHR ''u''] \<and> 7 \<le> length r4
                                    then decode_uXXXX (drop 2 r4) else None)
                        in case uni2 of
                             None \<Rightarrow> scanstring r4 (i + 6) begin (uni # acc)
                           | Some lo \<Rightarrow>
                               if 0xDC00 \<le> lo \<and> lo \<le> 0xDFFF then
                                 scanstring (drop 6 r4) (i + 12) begin
                                   ((0x10000 + (uni - 0xD800) * 1024 + (lo - 0xDC00)) # acc)
                               else scanstring r4 (i + 6) begin (uni # acc))))
             else
               (case backslash esc of
                  None \<Rightarrow> JSONDecodeError (''Invalid '' @ [CHR 0x5C] @ ''escape'') i
                | Some u \<Rightarrow> scanstring r (i + 2) begin (u # acc)))
      else if (of_char c :: nat) < 0x20 then JSONDecodeError ''Invalid control character at'' i
      else scanstring cs (i + 1) begin (of_char c # acc))"

definition same_scan :: "'a scan \<Rightarrow> 'b scan" where
  "same_scan r =
     (case r of
        StopIteration p \<Rightarrow> StopIteration p
      | JSONDecodeError m p \<Rightarrow> JSONDecodeError m p
      | _ \<Rightarrow> RecursionError)"

definition expecting_value :: "'a scan \<Rightarrow> 'b scan" where
  "expecting_value r =
     (case r of
        StopIteration p \<Rightarrow> JSONDecodeError ''Expecting value'' p
      | JSONDecodeError m p \<Rightarrow> JSONDecodeError m p
      | _ \<Rightarrow> RecursionError)"

definition scan_string_value :: "string \<Rightarrow> nat \<Rightarrow> json scan" where
  "scan_string_value r i =
     (case scanstring r (i + 1) i [] of
        Scanned v s' i' \<Rightarrow> Scanned (JStr v) s' i'
      | other \<Rightarrow> same_scan other)"

definition scan_atom :: "string \<Rightarrow> nat \<Rightarrow> json scan" where
  "scan_atom s i =
     (if take 4 s = ''null'' then Scanned JNull (drop 4 s) (i + 4)
      else if take 4 s = ''true'' then Scanned (JBool True) (drop 4 s) (i + 4)
      else if take 5 s = ''false'' then Scanned (JBool False) (drop 5 s) (i + 5)
      else
        (case match_number s of
           Some (v, k) \<Rightarrow> Scanned v (drop k s) (i + k)
         | None \<Rightarrow>
             if take 3 s = ''NaN'' then Scanned (JFloat NaN) (drop 3 s) (i + 3)
             else if take 8 s = ''Infinity'' then Scanned (JFloat PosInf) (drop 8 s) (i + 8)
             else if take 9 s = ''-Infinity'' then Scanned (JFloat NegInf) (drop 9 s) (i + 9)
             else StopIteration i))"

datatype step = Close string nat | More string nat | Bad string nat

definition array_open :: "string \<Rightarrow> nat \<Rightarrow> step" where
  "array_open r i =
     (let (r1, i1) = skip_ws r i
      in if r1 \<noteq> [] \<and> hd r1 = CHR '']'' then Close (tl r1) (i1 + 1) else More r1 i1)"

definition array_next :: "string \<Rightarrow> nat \<Rightarrow> step" where
  "array_next s1 i1 =
     (let (s2, i2) = skip_ws s1 i1
      in case s2 of
           [] \<Rightarrow> Bad ''Expecting ',' delimiter'' i2
         | c # s3 \<Rightarrow>
             if c = CHR '']'' then Close s3 (i2 + 1)
             else if c \<noteq> CHR '','' then Bad ''Expecting ',' delimiter'' i2
             else (let (s4, i4) = skip_ws s3 (i2 + 1) in More s4 i4))"

definition object_open :: "string \<Rightarrow> nat \<Rightarrow> step" where
  "object_open r i =
     (let (r1, i1) = (if r \<noteq> [] \<and> hd r = CHR 0x22 then (r, i) else skip_ws r i)
      in case r1 of
           [] \<Rightarrow> Bad ''Expecting property name enclosed in double quotes'' i1
         | c1 # r2 \<Rightarrow>
             if c1 = CHR 0x22 then More r2 (i1 + 1)
             else if c1 = CHR ''}'' then Close r2 (i1 + 1)
             else Bad ''Expecting property name enclosed in double quotes'' i1)"

definition object_key :: "string \<Rightarrow> nat \<Rightarrow> (nat list) scan" where
  "object_key s i =
     (case scanstring s i (i - 1) [] of
        Scanned key s1 i1 \<Rightarrow>
          (let (s2, i2) = (if s1 \<noteq> [] \<and> hd s1 = CHR '':'' then (s1, i1) else skip_ws s1 i1)
           in if s2 = [] \<or> hd s2 \<noteq> CHR '':'' then
                JSONDecodeError ''Expecting ':' delimiter'' i2
              else (let (s3, i3) = skip_ws (tl s2) (i2 + 1) in Scanned key s3 i3))
      | other \<Rightarrow> same_scan other)"

definition object_next :: "string \<Rightarrow> nat \<Rightarrow> step" where
  "object_next s4 i4 =
     (let (s5, i5) = skip_ws s4 i4
      in case s5 of
           [] \<Rightarrow> Bad ''Expecting ',' delimiter'' i5
         | c # s6 \<Rightarrow>
             if c = CHR ''}'' then Close s6 (i5 + 1)
             else if c \<noteq> CHR '','' then Bad ''Expecting ',' delimiter'' i5
             else
               (let (s7, i7) = skip_ws s6 (i5 + 1)
                in if s7 \<noteq> [] \<and> hd s7 = CHR 0x22 then More (tl s7) (i7 + 1)
                   else Bad ''Expecting property name enclosed in double quotes'' i7))"

fun scan_once :: "nat \<Rightarrow> string \<Rightarrow> nat \<Rightarrow> json scan"
  and JSONArray :: "nat \<Rightarrow> string \<Rightarrow> nat \<Rightarrow> json list \<Rightarrow> json scan"
  and JSONObject :: "nat \<Rightarrow> string \<Rightarrow> nat \<Rightarrow> (nat list \<times> json) list \<Rightarrow> json scan"
where
  "scan_once 0 s i = RecursionError"
| "scan_once (Suc n) [] i = StopIteration i"
| "scan_once (Suc n) (c # r) i =
     (if c = CHR 0x22 then scan_string_value r i
      else if c = CHR ''{'' then
        (case object_open r (i + 1) of
           Close s' i' \<Rightarrow> Scanned (JObj []) s' i'
         | More s' i' \<Rightarrow> JSONObject n s' i' []
         | Bad m p \<Rightarrow> JSONDecodeError m p)
      else if c = CHR ''['' then
        (case array_open r (i + 1) of
           Close s' i' \<Rightarrow> Scanned (JArr []) s' i'
         | More s' i' \<Rightarrow> JSONArray n s' i' []
         | Bad m p \<Rightarrow> JSONDecodeError m p)
      else scan_atom (c # r) i)"
| "JSONArray 0 s i acc = RecursionError"
| "JSONArray (Suc n) s i acc =
     (case scan_once n s i of
        Scanned v s1 i1 \<Rightarrow>
          (case array_next s1 i1 of
             Close s' i' \<Rightarrow> Scanned (JArr (rev (v # acc))) s' i'
           | More s' i' \<Rightarrow> JSONArray n s' i' (v # acc)
           | Bad m p \<Rightarrow> JSONDecodeError m p)
      | other \<Rightarrow> expecting_value other)"
| "JSONObject 0 s i acc = RecursionError"
| "JSONObject (Suc n) s i acc =
     (case object_key s i of
        Scanned key s3 i3 \<Rightarrow>
          (case scan_once n s3 i3 of
             Scanned v s4 i4 \<Rightarrow>
               (case object_next s4 i4 of
                  Close s' i' \<Rightarrow> Scanned (JObj (rev ((key, v) # acc))) s' i'
                | More s' i' \<Rightarrow> JSONObject n s' i' ((key, v) # acc)
                | Bad m p \<Rightarrow> JSONDecodeError m p)
           | other \<Rightarrow> expecting_value other)
      | other \<Rightarrow> same_scan other)"

fun show_nat :: "nat \<Rightarrow> string" where
  "show_nat n =
     (if n < 10 then [char_of (48 + n)]
      else show_nat (n div 10) @ [char_of (48 + n mod 10)])"

definition errmsg :: "string \<Rightarrow> string \<Rightarrow> nat \<Rightarrow> exn" where
  "errmsg msg doc pos =
     (let pre = take pos doc;
          lineno = count_list pre (CHR 0x0A) + 1;
          colno = length (takeWhile (\<lambda>c. c \<noteq> CHR 0x0A) (rev pre)) + 1
      in Exn ''JSONDecodeError''
           (msg @ '': line '' @ show_nat lineno @ '' column '' @ show_nat colno
            @ '' (char '' @ show_nat pos @ '')''))"

definition py_json_loads :: "string \<Rightarrow> exn + json" where
  "py_json_loads doc =
     (let (s, i) = skip_ws doc 0
      in case scan_once (2 * length doc + 2) s i of
           StopIteration p \<Rightarrow> Inl (errmsg ''Expecting value'' doc p)
         | JSONDecodeError m p \<Rightarrow> Inl (errmsg m doc p)
         | RecursionError \<Rightarrow>
             Inl (Exn ''RecursionError'' ''maximum recursion depth exceeded'')
         | Scanned v s1 i1 \<Rightarrow>
             (let (s2, i2) = skip_ws s1 i1
              in if s2 \<noteq> [] then Inl (errmsg ''Extra data'' doc i2) else Inr v))"

text \<open>
  \<^verbatim>\<open>np.array(x).astype(np.float32)\<close> on nested lists of numbers and booleans: the array of
  that shape, or \<^verbatim>\<open>ValueError\<close> when the lists are ragged. What numpy does with a string,
  \<^verbatim>\<open>None\<close> or a dictionary depends on its version and is left to the parameter \<open>other\<close>.
  A number is kept as it is written: the rounding of \<^verbatim>\<open>astype\<close> to the nearest \<^verbatim>\<open>float32\<close> is
  not modelled, so the conversion is exact on the numbers that \<^verbatim>\<open>float32\<close> holds, and the
  requests evaluated below use only such numbers.
\<close>

fun shape_of :: "json \<Rightarrow> nat list option" where
  "shape_of (JArr xs) =
     (case map shape_of xs of
        [] \<Rightarrow> Some [0]
      | None # _ \<Rightarrow> None
      | Some sh # rest \<Rightarrow>
          if list_all (\<lambda>r. r = Some sh) rest then Some (length xs # sh) else None)"
| "shape_of _ = Some []"

fun leaves :: "json \<Rightarrow> json list" where
  "leaves (JArr xs) = concat (map leaves xs)"
| "leaves v = [v]"

fun number_of :: "json \<Rightarrow> pyfloat option" where
  "number_of (JInt i) = Some (Fin (real_of_int i))"
| "number_of (JFloat x) = Some x"
| "number_of (JBool b) = Some (Fin (if b then 1 else 0))"
| "number_of _ = None"

definition numpy_array_astype_float32 ::
  "(json \<Rightarrow> exn + ndarray) \<Rightarrow> json \<Rightarrow> exn + ndarray" where
  "numpy_array_astype_float32 other j =
     (case those (map number_of (leaves j)) of
        None \<Rightarrow> other j
      | Some xs \<Rightarrow>
          (case shape_of j of
             None \<Rightarrow> Inl (Exn ''ValueError'' ''setting an array element with a sequence.'')
           | Some sh \<Rightarrow> if length sh \<le> 32 then Inr (NDArray sh xs) else other j))"

text \<open>
  The model registry and the files of the container: association lists from the name of
  a registered model to its directory, and from a path to the graph stored there. The
  two exceptions stand for what the SDK and the runtime raise; their texts are
  abbreviated.
\<close>

definition model_not_found :: "string \<Rightarrow> exn" where
  "model_not_found name =
     Exn ''ModelNotFoundException'' (''Model '' @ name @ '' not found in cache or in root'')"

definition no_such_file :: "string \<Rightarrow> exn" where
  "no_such_file path = Exn ''NoSuchFile'' (''Load model from '' @ path @ '' failed'')"

definition registry_get_model_path :: "(string \<times> string) list \<Rightarrow> string \<Rightarrow> exn + string" where
  "registry_get_model_path registry name =
     (case map_of registry name of
        None \<Rightarrow> Inl (model_not_found name)
      | Some path \<Rightarrow> Inr path)"

definition load_InferenceSession :: "(string \<times> session) list \<Rightarrow> string \<Rightarrow> exn + session" where
  "load_InferenceSession files path =
     (case map_of files path of
        None \<Rightarrow> Inl (no_such_file path)
      | Some m \<Rightarrow> Inr m)"

definition reference_env ::
  "(string \<times> string) list \<Rightarrow> (string \<times> session) list \<Rightarrow> (json \<Rightarrow> exn + ndarray) \<Rightarrow> env" where
  "reference_env registry files other =
     \<lparr>get_model_path = registry_get_model_path registry,
      InferenceSession = load_InferenceSession files,
      json_loads = py_json_loads,
      np_array_astype_float32 = numpy_array_astype_float32 other\<rparr>"

subsection \<open>Notions of the statements\<close>

text \<open>Element \<open>(i, j)\<close> of a two-dimensional array: \<^verbatim>\<open>a[i][j]\<close>.\<close>

definition at2 :: "ndarray \<Rightarrow> nat \<Rightarrow> nat \<Rightarrow> pyfloat" where
  "at2 a i j = flat a ! (i * (shape a ! 1) + j)"

text \<open>The two states of the endpoint: the global \<^verbatim>\<open>model\<close> is unbound, or bound.\<close>

datatype endpoint = Uninitialized | Ready

definition endpoint_of :: "state \<Rightarrow> endpoint" where
  "endpoint_of s = (case model s of None \<Rightarrow> Uninitialized | Some m \<Rightarrow> Ready)"

text \<open>The two library calls of \<^verbatim>\<open>init\<close>, without its printing: the session, or the exception.\<close>

definition load_model :: "env \<Rightarrow> exn + session" where
  "load_model E =
     and_then (get_model_path E ''component_compliance'') (\<lambda>model_path.
     InferenceSession E (os_path_join model_path ''component_compliance.onnx''))"

text \<open>The state after a sequence of requests, each handled by \<^verbatim>\<open>run\<close>.\<close>

fun serve :: "env \<Rightarrow> state \<Rightarrow> string list \<Rightarrow> state" where
  "serve E s [] = s"
| "serve E s (raw_data # rest) = serve E (snd (run E s raw_data)) rest"

text \<open>A value that the embedding has a row for, once cast to an integer.\<close>

definition in_vocabulary :: "pyfloat \<Rightarrow> bool" where
  "in_vocabulary x \<longleftrightarrow> token_index x \<noteq> None"


text \<open>The exception of \<^verbatim>\<open>result[0]\<close> on an array without rows, as \<open>getitem0\<close> raises it.\<close>

definition axis0_empty :: exn where
  "axis0_empty = Exn ''IndexError'' ''index 0 is out of bounds for axis 0 with size 0''"

subsection \<open>A deployment and its requests\<close>

text \<open>
  One concrete deployment: the network with all weights zero, registered under the name
  that \<^verbatim>\<open>init\<close> asks for, and a second container in which nothing is registered. On a
  leaf that is not a number the conversion of these environments raises.
\<close>

definition demo_weights :: weights where
  "demo_weights =
     \<lparr>embeddings = (\<lambda>i j. 0), dense_1_kernel = (\<lambda>m u. 0), dense_1_bias = (\<lambda>u. 0),
      dense_2_kernel = (\<lambda>u. 0), dense_2_bias = 0\<rparr>"

definition demo_session :: session where
  "demo_session = keras_session ''embedding_1_input'' demo_weights"

definition unmodelled :: "json \<Rightarrow> exn + ndarray" where
  "unmodelled j = Inl (Exn ''TypeError'' ''float() argument must be a string or a number'')"

definition demo_env :: env where
  "demo_env =
     reference_env
       [(''component_compliance'', ''azureml-models/component_compliance/1'')]
       [(''azureml-models/component_compliance/1/component_compliance.onnx'', demo_session)]
       unmodelled"

definition empty_env :: env where
  "empty_env = reference_env [] [] unmodelled"

definition decode :: "string \<Rightarrow> exn + ndarray" where
  "decode raw_data = and_then (py_json_loads raw_data) (numpy_array_astype_float32 unmodelled)"

text \<open>
  Requests as cell 34 builds them (\<^verbatim>\<open>json.dumps\<close> of padded token indices): one row, two
  rows, one row with the index 10000 and one with the index 50000, which the vocabulary
  of 10000 words does not have, and one row that starts with the fractions 0.5, 2.5 and
  9999.5.
\<close>

definition tokens :: "int list \<Rightarrow> pyfloat list" where
  "tokens is = map (\<lambda>i. Fin (real_of_int i)) is"

definition tokens_a :: "int list" where
  "tokens_a =
     [0, 0, 0, 0, 0, 0, 0, 0, 0, 0, 0, 0, 0, 0, 0, 0, 0, 0, 0, 0,
      0, 0, 0, 0, 0, 0, 0, 0, 0, 0, 0, 0, 0, 0, 0, 0, 0, 0, 0, 0,
      0, 0, 0, 0, 0, 0, 0, 0, 0, 0, 0, 0, 0, 0, 0, 0, 0, 0, 0, 0,
      0, 0, 0, 0, 0, 0, 0, 0, 0, 0, 0, 0, 0, 0, 0, 0, 0, 0, 0, 0,
      0, 0, 0, 0, 0, 0, 0, 0, 0, 0, 0, 0, 12, 5, 371, 2, 9999, 17, 3, 1]"

definition tokens_b :: "int list" where
  "tokens_b =
     [0, 0, 0, 0, 0, 0, 0, 0, 0, 0, 0, 0, 0, 0, 0, 0, 0, 0, 0, 0,
      0, 0, 0, 0, 0, 0, 0, 0, 0, 0, 0, 0, 0, 0, 0, 0, 0, 0, 0, 0,
      0, 0, 0, 0, 0, 0, 0, 0, 0, 0, 0, 0, 0, 0, 0, 0, 0, 0, 0, 0,
      0, 0, 0, 0, 0, 0, 0, 0, 0, 0, 0, 0, 0, 0, 0, 0, 0, 0, 0, 0,
      0, 0, 0, 0, 0, 0, 0, 0, 0, 0, 0, 0, 0, 0, 8, 44, 1985, 6, 230, 7]"

definition tokens_oov :: "int list" where
  "tokens_oov =
     [0, 0, 0, 0, 0, 0, 0, 0, 0, 0, 0, 0, 0, 0, 0, 0, 0, 0, 0, 0,
      0, 0, 0, 0, 0, 0, 0, 0, 0, 0, 0, 0, 0, 0, 0, 0, 0, 0, 0, 0,
      0, 0, 0, 0, 0, 0, 0, 0, 0, 0, 0, 0, 0, 0, 0, 0, 0, 0, 0, 0,
      0, 0, 0, 0, 0, 0, 0, 0, 0, 0, 0, 0, 0, 0, 0, 0, 0, 0, 0, 0,
      0, 0, 0, 0, 0, 0, 0, 0, 0, 0, 0, 0, 12, 5, 371, 2, 10000, 17, 3, 1]"

definition request_a :: string where
  "request_a =
     ''[[0.0, 0.0, 0.0, 0.0, 0.0, 0.0, 0.0, 0.0, 0.0, 0.0, ''
     @ ''0.0, 0.0, 0.0, 0.0, 0.0, 0.0, 0.0, 0.0, 0.0, 0.0, ''
     @ ''0.0, 0.0, 0.0, 0.0, 0.0, 0.0, 0.0, 0.0, 0.0, 0.0, ''
     @ ''0.0, 0.0, 0.0, 0.0, 0.0, 0.0, 0.0, 0.0, 0.0, 0.0, ''
     @ ''0.0, 0.0, 0.0, 0.0, 0.0, 0.0, 0.0, 0.0, 0.0, 0.0, ''
     @ ''0.0, 0.0, 0.0, 0.0, 0.0, 0.0, 0.0, 0.0, 0.0, 0.0, ''
     @ ''0.0, 0.0, 0.0, 0.0, 0.0, 0.0, 0.0, 0.0, 0.0, 0.0, ''
     @ ''0.0, 0.0, 0.0, 0.0, 0.0, 0.0, 0.0, 0.0, 0.0, 0.0, ''
     @ ''0.0, 0.0, 0.0, 0.0, 0.0, 0.0, 0.0, 0.0, 0.0, 0.0, ''
     @ ''0.0, 0.0, 12.0, 5.0, 371.0, 2.0, 9999.0, 17.0, 3.0, 1.0]]''"

definition request_ab :: string where
  "request_ab =
     ''[[0, 0, 0, 0, 0, 0, 0, 0, 0, 0, ''
     @ ''0, 0, 0, 0, 0, 0, 0, 0, 0, 0, ''
     @ ''0, 0, 0, 0, 0, 0, 0, 0, 0, 0, ''
     @ ''0, 0, 0, 0, 0, 0, 0, 0, 0, 0, ''
     @ ''0, 0, 0, 0, 0, 0, 0, 0, 0, 0, ''
     @ ''0, 0, 0, 0, 0, 0, 0, 0, 0, 0, ''
     @ ''0, 0, 0, 0, 0, 0, 0, 0, 0, 0, ''
     @ ''0, 0, 0, 0, 0, 0, 0, 0, 0, 0, ''
     @ ''0, 0, 0, 0, 0, 0, 0, 0, 0, 0, ''
     @ ''0, 0, 12, 5, 371, 2, 9999, 17, 3, 1], ''
     @ ''[0, 0, 0, 0, 0, 0, 0, 0, 0, 0, ''
     @ ''0, 0, 0, 0, 0, 0, 0, 0, 0, 0, ''
     @ ''0, 0, 0, 0, 0, 0, 0, 0, 0, 0, ''
     @ ''0, 0, 0, 0, 0, 0, 0, 0, 0, 0, ''
     @ ''0, 0, 0, 0, 0, 0, 0, 0, 0, 0, ''
     @ ''0, 0, 0, 0, 0, 0, 0, 0, 0, 0, ''
     @ ''0, 0, 0, 0, 0, 0, 0, 0, 0, 0, ''
     @ ''0, 0, 0, 0, 0, 0, 0, 0, 0, 0, ''
     @ ''0, 0, 0, 0, 0, 0, 0, 0, 0, 0, ''
     @ ''0, 0, 0, 0, 8, 44, 1985, 6, 230, 7]]''"

definition request_oov :: string where
  "request_oov =
     ''[[0, 0, 0, 0, 0, 0, 0, 0, 0, 0, ''
     @ ''0, 0, 0, 0, 0, 0, 0, 0, 0, 0, ''
     @ ''0, 0, 0, 0, 0, 0, 0, 0, 0, 0, ''
     @ ''0, 0, 0, 0, 0, 0, 0, 0, 0, 0, ''
     @ ''0, 0, 0, 0, 0, 0, 0, 0, 0, 0, ''
     @ ''0, 0, 0, 0, 0, 0, 0, 0, 0, 0, ''
     @ ''0, 0, 0, 0, 0, 0, 0, 0, 0, 0, ''
     @ ''0, 0, 0, 0, 0, 0, 0, 0, 0, 0, ''
     @ ''0, 0, 0, 0, 0, 0, 0, 0, 0, 0, ''
     @ ''0, 0, 12, 5, 371, 2, 10000, 17, 3, 1]]''"




section \<open>Properties\<close>

subsection \<open>Auxiliary facts\<close>

lemma model_print1 [simp]: "model (print1 a s) = model s"
  by (simp add: print1_def)

lemma model_print2 [simp]: "model (print2 a b s) = model s"
  by (simp add: print2_def)

lemma run_cases:
  "run E s raw_data =
     (case run_try E (model s) raw_data of
        Inl e \<Rightarrow> (Inr (PyStr (str e)), print2 ''Received input: '' raw_data s)
      | Inr result \<Rightarrow> (Inr (PyFloat result), print2 ''Received input: '' raw_data s))"
  by (simp add: run_def Let_def split: sum.splits)

lemma and_then_Inl [simp]: "and_then (Inl e) f = Inl e"
  by (simp add: and_then_def)

lemma and_then_Inr [simp]: "and_then (Inr x) f = f x"
  by (simp add: and_then_def)

lemma use_model_Some [simp]: "use_model (Some m) = Inr m"
  by (simp add: use_model_def)

lemma use_model_None [simp]:
  "use_model None = Inl (Exn ''NameError'' ''name 'model' is not defined'')"
  by (simp add: use_model_def)

lemma model_run [simp]: "model (snd (run E s raw_data)) = model s"
  by (simp add: run_cases split: sum.splits)

lemma fst_run:
  "fst (run E s raw_data) =
     (case run_try E (model s) raw_data of
        Inl e \<Rightarrow> Inr (PyStr (str e))
      | Inr x \<Rightarrow> Inr (PyFloat x))"
  by (simp add: run_cases split: sum.splits)

lemma run_try_ready:
  "input_data_of E raw_data = Inr a \<Longrightarrow> get_inputs m = name # names \<Longrightarrow>
   run_try E (Some m) raw_data =
     and_then (session_run m [(name, a)]) (\<lambda>outputs.
     and_then (list_getitem0 outputs) first_cell)"
  by (simp add: run_try_def)

lemma first_cell_2d:
  assumes "shape t = [r, c]" "0 < r" "0 < c" "wf_ndarray t"
  shows "first_cell t = Inr (at2 t 0 0)"
proof -
  obtain sh xs where t: "t = NDArray sh xs" by (cases t)
  from assms t have sh: "sh = [r, c]" and len: "length xs = r * c"
    by (simp_all add: wf_ndarray_def)
  from len assms have "xs \<noteq> []" by auto
  then obtain x xs' where xs: "xs = x # xs'" by (cases xs) auto
  from assms obtain c' where c: "c = Suc c'" by (cases c) auto
  show ?thesis
    using assms by (simp add: first_cell_def t sh xs c at2_def)
qed

lemma fst_run_stdout: "fst (run E (s\<lparr>stdout := out\<rparr>) raw_data) = fst (run E s raw_data)"
  by (simp add: fst_run)

lemma init_try_load:
  "fst (init_try E s) = (case load_model E of Inl e \<Rightarrow> Some e | Inr m \<Rightarrow> None)"
  by (simp add: init_try_def load_model_def and_then_def Let_def split: sum.splits)

lemma model_init:
  "model (init E s) = (case load_model E of Inl e \<Rightarrow> model s | Inr m \<Rightarrow> Some m)"
  by (simp add: init_def init_try_def load_model_def and_then_def Let_def print1_def print2_def
      split: sum.splits)

lemma model_serve: "model (serve E s requests) = model s"
  by (induction requests arbitrary: s) simp_all

lemma init_failed:
  assumes "fst (init_try E s) = Some e"
  shows "model (init E s) = model s" and "last (stdout (init E s)) = str e"
  using assms
  by (auto simp add: init_def init_try_def Let_def print1_def print2_def
      split: sum.splits prod.splits option.splits)

lemma sigmoid_bounds: "0 \<le> sigmoid x" "sigmoid x \<le> 1"
proof -
  have "0 < exp (- x)" by simp
  then show "0 \<le> sigmoid x" "sigmoid x \<le> 1"
    by (simp_all add: sigmoid_def add_pos_pos)
qed

lemma predict_bounds: "0 \<le> predict W idx" "predict W idx \<le> 1"
  by (simp_all add: predict_def Dense_sigmoid_def sigmoid_bounds)

lemma those_in_vocabulary:
  "\<forall>x\<in>set xs. in_vocabulary x \<Longrightarrow> \<exists>idx. those (map token_index xs) = Some idx"
  by (induction xs) (auto simp add: in_vocabulary_def)

lemma keras_first_cell:
  assumes "shape a = [n, maxlen]" and "0 < n" and "\<forall>x\<in>set (flat a). in_vocabulary x"
  shows "\<exists>idx. those (map token_index (flat a)) = Some idx
     \<and> and_then (keras_run W a) (\<lambda>outputs. and_then (list_getitem0 outputs) first_cell)
         = Inr (Fin (predict W (take maxlen idx)))"
proof -
  from those_in_vocabulary [OF assms(3)] obtain idx where
    idx: "those (map token_index (flat a)) = Some idx" by blast
  from assms(2) obtain n' where n: "n = Suc n'" by (cases n) auto
  have "[0..<Suc n'] = 0 # [Suc 0..<Suc n']" by (simp add: upt_rec)
  then show ?thesis
    using assms(1) idx
    by (simp add: keras_run_def n first_cell_def del: upt_Suc)
qed

lemma first_cell_empty: "first_cell (NDArray [0, k] xs) = Inl axis0_empty"
  by (simp add: first_cell_def axis0_empty_def)

lemma keras_run_no_rows:
  assumes "shape a = 0 # ds" and "wf_ndarray a"
  shows "and_then (keras_run W a) (\<lambda>outputs. and_then (list_getitem0 outputs) first_cell)
     = Inl (if ds = [maxlen] then axis0_empty
            else if length ds = 1 then invalid_dimensions else invalid_rank)"
proof (cases ds)
  case Nil
  with assms show ?thesis by (simp add: keras_run_def)
next
  case (Cons l ds')
  show ?thesis
  proof (cases ds')
    case Nil
    with Cons assms have "flat a = []" by (simp add: wf_ndarray_def)
    with Nil Cons assms show ?thesis by (simp add: keras_run_def first_cell_empty)
  next
    case (Cons l' ds'')
    with \<open>ds = l # ds'\<close> assms show ?thesis by (simp add: keras_run_def)
  qed
qed




lemma run_keras:
  assumes "input_data_of E raw_data = Inr a"
    and "model s = Some (keras_session input_name W)"
  shows "fst (run E s raw_data) =
     (case and_then (keras_run W a) (\<lambda>outputs. and_then (list_getitem0 outputs) first_cell) of
        Inl e \<Rightarrow> Inr (PyStr (str e))
      | Inr x \<Rightarrow> Inr (PyFloat x))"
  using assms by (simp add: fst_run run_try_def keras_session_def)

subsection \<open>The deployment and the requests, evaluated\<close>

lemma demo_ready: "model (init demo_env start) = Some demo_session"
  by (simp add: init_def init_try_def demo_env_def reference_env_def
      registry_get_model_path_def load_InferenceSession_def os_path_join_def
      print1_def print2_def start_def Let_def)

lemma empty_not_ready:
  "fst (init_try empty_env start) = Some (model_not_found ''component_compliance'')"
  by (simp add: init_try_def empty_env_def reference_env_def registry_get_model_path_def)

lemma input_data_of_reference:
  "input_data_of (reference_env registry files other) raw_data =
     and_then (py_json_loads raw_data) (numpy_array_astype_float32 other)"
  by (simp add: input_data_of_def reference_env_def)

lemma input_data_of_demo [simp]: "input_data_of demo_env raw_data = decode raw_data"
  by (simp add: demo_env_def decode_def input_data_of_reference)

lemma input_data_of_empty [simp]: "input_data_of empty_env raw_data = decode raw_data"
  by (simp add: empty_env_def decode_def input_data_of_reference)

lemma decode_request_a: "decode request_a = Inr (NDArray [1, 100] (tokens tokens_a))"
  by code_simp

lemma decode_request_ab:
  "decode request_ab = Inr (NDArray [2, 100] (tokens (tokens_a @ tokens_b)))"
  by code_simp

lemma decode_request_oov: "decode request_oov = Inr (NDArray [1, 100] (tokens tokens_oov))"
  by code_simp

lemma shape_of_no_rows: "shape_of j = Some (0 # ds) \<Longrightarrow> ds = []"
  by (cases j) (auto split: list.splits option.splits if_splits)




lemma decode_empty: "decode ''[]'' = Inr (NDArray [0] [])"
  by code_simp

lemma decode_oops:
  "decode ''oops'' =
     Inl (Exn ''JSONDecodeError'' ''Expecting value: line 1 column 1 (char 0)'')"
  by code_simp

lemma decode_pair: "decode ''[[1, 2]]'' = Inr (NDArray [1, 2] [Fin 1, Fin 2])"
  by code_simp

lemma token_index_int:
  "token_index (Fin (real_of_int i)) = (if 0 \<le> i \<and> i < 10000 then Some (nat i) else None)"
  by (simp add: token_index_def max_words_def)

lemma those_tokens:
  "those (map token_index (tokens is)) =
     (if list_all (\<lambda>i. 0 \<le> i \<and> i < 10000) is then Some (map nat is) else None)"
  by (induction "is") (simp_all add: tokens_def token_index_int)

lemma in_vocabulary_tokens:
  "list_all (\<lambda>i. 0 \<le> i \<and> i < 10000) is \<Longrightarrow> \<forall>x\<in>set (tokens is). in_vocabulary x"
  by (auto simp add: tokens_def in_vocabulary_def token_index_int list_all_iff)

lemma tokens_a_range: "list_all (\<lambda>i. 0 \<le> i \<and> i < 10000) tokens_a"
  by (simp add: tokens_a_def)

lemma tokens_b_range: "list_all (\<lambda>i. 0 \<le> i \<and> i < 10000) tokens_b"
  by (simp add: tokens_b_def)

lemma tokens_oov_range: "\<not> list_all (\<lambda>i. 0 \<le> i \<and> i < 10000) tokens_oov"
  by (simp add: tokens_oov_def)

lemma length_tokens_a: "length tokens_a = 100"
  by (simp add: tokens_a_def)

lemma length_tokens_b: "length tokens_b = 100"
  by (simp add: tokens_b_def)

lemma keras_run_tokens:
  "keras_run W (NDArray [n, 100] (tokens is)) =
     (if list_all (\<lambda>i. 0 \<le> i \<and> i < 10000) is then
        Inr [NDArray [n, 1]
               (map (\<lambda>r. Fin (predict W (take 100 (drop (r * 100) (map nat is))))) [0..<n])]
      else Inl out_of_bounds)"
  by (simp add: keras_run_def maxlen_def those_tokens)

lemma session_run_demo:
  "session_run demo_session [(''embedding_1_input'', a)] = keras_run demo_weights a"
  by (simp add: demo_session_def keras_session_def)

lemma get_inputs_demo: "get_inputs demo_session = [''embedding_1_input'']"
  by (simp add: demo_session_def keras_session_def)

lemma demo_session_keras:
  "model (init demo_env start) = Some (keras_session ''embedding_1_input'' demo_weights)"
  by (simp add: demo_ready demo_session_def)

lemma upt_2: "[0..<2] = [0, Suc 0]"
  by (simp add: numeral_2_eq_2)


subsection \<open>Properties of the scoring service\<close>

text \<open>
  C1. For every string \<open>raw_data\<close>, in every state and with every behaviour of the
  libraries, \<open>run\<close> does not raise: it returns a float or a string. The float is the
  result of the \<^verbatim>\<open>try\<close> block; the string is the text of the exception that ended the
  block, whichever statement raised it (parsing, conversion, the unbound global, the
  execution of the model, the indexing of its output).
\<close>

theorem C1_run_never_raises:
  "(\<exists>x. fst (run E s raw_data) = Inr (PyFloat x) \<and> run_try E (model s) raw_data = Inr x)
   \<or> (\<exists>e. fst (run E s raw_data) = Inr (PyStr (str e)) \<and> run_try E (model s) raw_data = Inl e)"
  by (cases "run_try E (model s) raw_data") (simp_all add: run_cases)

text \<open>
  On the deployed network: text that is not JSON, a row of two values instead of 100,
  and a request as the notebook sends it.
\<close>

theorem C1_run_never_raises_witness:
  "fst (run demo_env (init demo_env start) ''oops'')
     = Inr (PyStr ''Expecting value: line 1 column 1 (char 0)'')
   \<and> fst (run demo_env (init demo_env start) ''[[1, 2]]'')
     = Inr (PyStr (str invalid_dimensions))
   \<and> fst (run demo_env (init demo_env start) request_a)
     = Inr (PyFloat (Fin (predict demo_weights (map nat tokens_a))))"
proof -
  have a: "run_try demo_env (model (init demo_env start)) ''oops''
      = Inl (Exn ''JSONDecodeError'' ''Expecting value: line 1 column 1 (char 0)'')"
    by (simp add: run_try_def decode_oops)
  have b: "run_try demo_env (model (init demo_env start)) ''[[1, 2]]'' = Inl invalid_dimensions"
    by (simp add: run_try_def decode_pair demo_ready get_inputs_demo session_run_demo
        keras_run_def maxlen_def)
  have c: "run_try demo_env (model (init demo_env start)) request_a
      = Inr (Fin (predict demo_weights (map nat tokens_a)))"
    by (simp add: run_try_def decode_request_a demo_ready get_inputs_demo session_run_demo
        keras_run_tokens tokens_a_range first_cell_def length_tokens_a)
  from C1_run_never_raises [of demo_env "init demo_env start" "''oops''"]
    C1_run_never_raises [of demo_env "init demo_env start" "''[[1, 2]]''"]
    C1_run_never_raises [of demo_env "init demo_env start" request_a]
    a b c
  show ?thesis by auto
qed

text \<open>
  C2. On a Ready endpoint, when the request decodes to an array and the first output of
  the model is a two-dimensional array with at least one row and one column, \<open>run\<close>
  returns the element \<^verbatim>\<open>result[0][0]\<close> of that output, the prediction for the first row,
  however many rows the request and the output have.
\<close>

theorem C2_first_row_only:
  assumes "input_data_of E raw_data = Inr a"
    and "model s = Some m"
    and "get_inputs m = name # names"
    and "session_run m [(name, a)] = Inr (t # ts)"
    and "shape t = [r, c]" and "0 < r" and "0 < c" and "wf_ndarray t"
  shows "fst (run E s raw_data) = Inr (PyFloat (at2 t 0 0))"
  using assms by (simp add: fst_run run_try_ready first_cell_2d)

text \<open>
  A request of two rows to the deployed network: the output has two predictions, the
  result is the first.
\<close>

theorem C2_first_row_only_witness:
  "input_data_of demo_env request_ab = Inr (NDArray [2, 100] (tokens (tokens_a @ tokens_b)))
   \<and> session_run demo_session
        [(''embedding_1_input'', NDArray [2, 100] (tokens (tokens_a @ tokens_b)))]
      = Inr [NDArray [2, 1] [Fin (predict demo_weights (map nat tokens_a)),
                             Fin (predict demo_weights (map nat tokens_b))]]
   \<and> fst (run demo_env (init demo_env start) request_ab)
      = Inr (PyFloat (Fin (predict demo_weights (map nat tokens_a))))"
proof -
  let ?a = "NDArray [2, 100] (tokens (tokens_a @ tokens_b))"
  let ?t = "NDArray [2, 1] [Fin (predict demo_weights (map nat tokens_a)),
                            Fin (predict demo_weights (map nat tokens_b))]"
  have d: "input_data_of demo_env request_ab = Inr ?a"
    by (simp add: decode_request_ab)
  have r: "session_run demo_session [(''embedding_1_input'', ?a)] = Inr (?t # [])"
    by (simp add: session_run_demo keras_run_tokens tokens_a_range tokens_b_range upt_2
        length_tokens_a length_tokens_b)
  have "fst (run demo_env (init demo_env start) request_ab) = Inr (PyFloat (at2 ?t 0 0))"
    by (rule C2_first_row_only [OF d demo_ready get_inputs_demo r, where r = 2 and c = 1])
      (simp_all add: wf_ndarray_def)
  with d r show ?thesis by (simp add: at2_def)
qed

text \<open>
  C3, amended. When \<open>init\<close> fails on an Uninitialized endpoint, the exception is caught,
  its text is printed and the endpoint stays Uninitialized. Every later call of \<open>run\<close>
  returns a string and executes no model: the text of the parse or conversion error when
  the request does not decode, and otherwise the text of the \<^verbatim>\<open>NameError\<close> for the unbound
  global. There is no result of its own for an endpoint that is not ready.
\<close>

theorem C3_uninitialized:
  assumes "model s = None" and "fst (init_try E s) = Some e"
  shows "model (init E s) = None
   \<and> last (stdout (init E s)) = str e
   \<and> fst (run E (init E s) raw_data) =
       Inr (PyStr (case input_data_of E raw_data of
                     Inl e' \<Rightarrow> str e'
                   | Inr a \<Rightarrow> ''name 'model' is not defined''))"
  using assms
  by (simp add: init_failed fst_run run_try_def split: sum.splits)

theorem C3_uninitialized_witness:
  "model start = None
   \<and> fst (init_try empty_env start) = Some (model_not_found ''component_compliance'')
   \<and> model (init empty_env start) = None
   \<and> last (stdout (init empty_env start)) = str (model_not_found ''component_compliance'')
   \<and> fst (run empty_env (init empty_env start) ''[[1, 2]]'')
      = Inr (PyStr ''name 'model' is not defined'')"
proof -
  have m: "model start = None" by (simp add: start_def)
  from C3_uninitialized [OF m empty_not_ready, of "''[[1, 2]]''"] m empty_not_ready
  show ?thesis by (simp add: decode_pair)
qed

text \<open>
  C3 as stated fails: on the endpoint whose \<open>init\<close> failed, a request that is not JSON
  is answered with the parser's message, which says nothing about the endpoint; only a
  request that decodes is answered with the \<^verbatim>\<open>NameError\<close> text.
\<close>

theorem C3_not_ready_counterexample:
  "endpoint_of (init empty_env start) = Uninitialized
   \<and> fst (run empty_env (init empty_env start) ''oops'')
      = Inr (PyStr ''Expecting value: line 1 column 1 (char 0)'')
   \<and> fst (run empty_env (init empty_env start) ''[[1, 2]]'')
      = Inr (PyStr ''name 'model' is not defined'')"
proof -
  have m: "model (init empty_env start) = None"
    using init_failed(1) [OF empty_not_ready] by (simp add: start_def)
  then show ?thesis
    by (simp add: endpoint_of_def fst_run run_try_def decode_oops decode_pair)
qed

text \<open>
  C4. With the deployed network (any weights, any input name) on a Ready endpoint, a
  request that decodes to one row of \<open>maxlen\<close> values of the vocabulary is answered with
  a float between 0 and 1, both included: the last layer is a sigmoid.
\<close>

theorem C4_unit_interval:
  assumes "input_data_of E raw_data = Inr a"
    and "shape a = [1, maxlen]"
    and "\<forall>x\<in>set (flat a). in_vocabulary x"
    and "model s = Some (keras_session input_name W)"
  shows "\<exists>v. fst (run E s raw_data) = Inr (PyFloat (Fin v)) \<and> 0 \<le> v \<and> v \<le> 1"
  using keras_first_cell [OF assms(2) _ assms(3), of W] run_keras [OF assms(1,4)]
  by (auto simp add: predict_bounds)

theorem C4_unit_interval_witness:
  "input_data_of demo_env request_a = Inr (NDArray [1, 100] (tokens tokens_a))
   \<and> list_all in_vocabulary (tokens tokens_a)
   \<and> (\<exists>v. fst (run demo_env (init demo_env start) request_a) = Inr (PyFloat (Fin v))
          \<and> 0 \<le> v \<and> v \<le> 1)"
proof -
  let ?a = "NDArray [1, 100] (tokens tokens_a)"
  have d: "input_data_of demo_env request_a = Inr ?a"
    by (simp add: decode_request_a)
  have v: "\<forall>x\<in>set (flat ?a). in_vocabulary x"
    using in_vocabulary_tokens [OF tokens_a_range] by simp
  have "\<exists>v. fst (run demo_env (init demo_env start) request_a) = Inr (PyFloat (Fin v))
          \<and> 0 \<le> v \<and> v \<le> 1"
    by (rule C4_unit_interval [OF d _ v demo_session_keras]) (simp add: maxlen_def)
  with d v show ?thesis by (simp add: list_all_iff)
qed

text \<open>
  C6. Two calls of \<open>run\<close> with the same \<open>raw_data\<close>, one after the other, return the same
  result; the first call leaves the global \<^verbatim>\<open>model\<close> as it was; and the result does not
  depend on what has been printed, the only part of the state that \<open>run\<close> changes. The
  result is a function of the request, the loaded model and the libraries.
\<close>

theorem C6_idempotent:
  "fst (run E (snd (run E s raw_data)) raw_data) = fst (run E s raw_data)
   \<and> model (snd (run E s raw_data)) = model s
   \<and> fst (run E (s\<lparr>stdout := out\<rparr>) raw_data) = fst (run E s raw_data)"
  by (simp add: fst_run)

text \<open>
  C7. The endpoint is Uninitialized or Ready. \<open>run\<close> changes neither the state of the
  endpoint nor the global \<^verbatim>\<open>model\<close>, and no sequence of requests does. \<open>init\<close> assigns
  the global exactly when both of its library calls succeed, which makes the endpoint
  Ready; when one fails, the global is what it was. A Ready endpoint stays Ready.
\<close>

theorem C7_state_machine:
  "model (snd (run E s raw_data)) = model s
   \<and> endpoint_of (snd (run E s raw_data)) = endpoint_of s
   \<and> model (serve E s requests) = model s
   \<and> model (init E s) = (case load_model E of Inl e \<Rightarrow> model s | Inr m \<Rightarrow> Some m)
   \<and> endpoint_of (init E s) = (case load_model E of Inl e \<Rightarrow> endpoint_of s | Inr m \<Rightarrow> Ready)
   \<and> endpoint_of (init E (s\<lparr>model := Some m0\<rparr>)) = Ready"
  by (simp add: endpoint_of_def model_init model_serve split: sum.splits)

text \<open>
  C8, amended. With the deployed network on a Ready endpoint, a request that decodes to
  at least one row of \<open>maxlen\<close> values, each of the vocabulary once cast to an integer, is
  answered with a float: the prediction of the network for the first row.
\<close>

theorem C8_success_path:
  assumes "input_data_of E raw_data = Inr a"
    and "shape a = [n, maxlen]" and "0 < n"
    and "\<forall>x\<in>set (flat a). in_vocabulary x"
    and "model s = Some (keras_session input_name W)"
  shows "\<exists>idx. those (map token_index (flat a)) = Some idx
     \<and> fst (run E s raw_data) = Inr (PyFloat (Fin (predict W (take maxlen idx))))"
  using keras_first_cell [OF assms(2,3,4), of W] run_keras [OF assms(1,5)] by auto

theorem C8_success_path_witness:
  "input_data_of demo_env request_ab = Inr (NDArray [2, 100] (tokens (tokens_a @ tokens_b)))
   \<and> list_all in_vocabulary (tokens (tokens_a @ tokens_b))
   \<and> fst (run demo_env (init demo_env start) request_ab)
      = Inr (PyFloat (Fin (predict demo_weights (map nat tokens_a))))"
proof -
  let ?a = "NDArray [2, 100] (tokens (tokens_a @ tokens_b))"
  have d: "input_data_of demo_env request_ab = Inr ?a"
    by (simp add: decode_request_ab)
  have v: "\<forall>x\<in>set (flat ?a). in_vocabulary x"
    using in_vocabulary_tokens [of "tokens_a @ tokens_b"]
    by (simp add: tokens_a_range tokens_b_range)
  have "\<exists>idx. those (map token_index (flat ?a)) = Some idx
      \<and> fst (run demo_env (init demo_env start) request_ab)
        = Inr (PyFloat (Fin (predict demo_weights (take maxlen idx))))"
    by (rule C8_success_path [OF d _ _ v demo_session_keras, where n = 2])
      (simp_all add: maxlen_def)
  moreover have "those (map token_index (flat ?a)) = Some (map nat (tokens_a @ tokens_b))"
    by (simp add: those_tokens tokens_a_range tokens_b_range)
  moreover have "take maxlen (map nat (tokens_a @ tokens_b)) = map nat tokens_a"
    by (simp add: maxlen_def length_tokens_a)
  ultimately have "fst (run demo_env (init demo_env start) request_ab)
      = Inr (PyFloat (Fin (predict demo_weights (map nat tokens_a))))"
    by auto
  with d v show ?thesis by (simp add: list_all_iff)
qed

text \<open>
  C8 as stated fails: the request below is well-formed JSON and decodes to one row of
  100 numbers, the endpoint is Ready, and the result is a string. The row holds the index
  10000; the embedding has the rows 0 to 9999, the lookup fails inside the model and
  \<open>run\<close> returns the text of that failure.
\<close>

theorem C8_out_of_vocabulary_counterexample:
  "input_data_of demo_env request_oov = Inr (NDArray [1, 100] (tokens tokens_oov))
   \<and> endpoint_of (init demo_env start) = Ready
   \<and> fst (run demo_env (init demo_env start) request_oov) = Inr (PyStr (str out_of_bounds))"
  by (simp add: decode_request_oov endpoint_of_def demo_ready fst_run run_try_def
      get_inputs_demo session_run_demo keras_run_tokens tokens_oov_range)

text \<open>
  C9, amended. With the deployed network on a Ready endpoint, a request that decodes to
  an array without rows is answered with a string, never with a float, and \<open>run\<close> has no
  branch for zero samples: the string is the text of the exception it caught. For an
  array of one axis, as \<^verbatim>\<open>[]\<close> decodes to, or of more than two, that is the runtime's
  refusal of the rank, raised inside \<^verbatim>\<open>model.run\<close>; for rows of another length than
  \<open>maxlen\<close> its refusal of the dimensions; and only for the shape \<open>(0, maxlen)\<close>, which no
  JSON text decodes to (\<open>shape_of_no_rows\<close>), the \<^verbatim>\<open>IndexError\<close> of \<^verbatim>\<open>result[0]\<close>.
\<close>

theorem C9_empty_batch:
  assumes "input_data_of E raw_data = Inr a"
    and "shape a = 0 # ds" and "wf_ndarray a"
    and "model s = Some (keras_session input_name W)"
  shows "fst (run E s raw_data) =
     Inr (PyStr (str (if ds = [maxlen] then axis0_empty
                      else if length ds = 1 then invalid_dimensions else invalid_rank)))"
  using run_keras [OF assms(1,4)] keras_run_no_rows [OF assms(2,3), of W] by simp

theorem C9_empty_batch_witness:
  "input_data_of demo_env ''[]'' = Inr (NDArray [0] [])
   \<and> wf_ndarray (NDArray [0] [])
   \<and> fst (run demo_env (init demo_env start) ''[]'') = Inr (PyStr (str invalid_rank))"
proof -
  have d: "input_data_of demo_env ''[]'' = Inr (NDArray [0] [])"
    by (simp add: decode_empty)
  have sh: "shape (NDArray [0] []) = 0 # []"
    by simp
  have wf: "wf_ndarray (NDArray [0] [])"
    by (simp add: wf_ndarray_def)
  from C9_empty_batch [OF d sh wf demo_session_keras] d wf show ?thesis by simp
qed

text \<open>
  C9 as stated fails: on the Ready endpoint the request \<^verbatim>\<open>[]\<close> decodes to an array of
  shape \<open>(0,)\<close>, the model is never run on it, and the string returned is the runtime's
  refusal of the rank, not the \<^verbatim>\<open>IndexError\<close> of \<^verbatim>\<open>result[0][0]\<close>.
\<close>

theorem C9_index_error_counterexample:
  "endpoint_of (init demo_env start) = Ready
   \<and> input_data_of demo_env ''[]'' = Inr (NDArray [0] [])
   \<and> fst (run demo_env (init demo_env start) ''[]'') = Inr (PyStr (str invalid_rank))
   \<and> fst (run demo_env (init demo_env start) ''[]'') \<noteq> Inr (PyStr (str axis0_empty))"
  by (simp add: endpoint_of_def demo_ready decode_empty fst_run run_try_def get_inputs_demo
      session_run_demo keras_run_def invalid_rank_def axis0_empty_def)




end
